theory Spec2Isabelle
  imports Main
begin

section \<open>Game Portal: the catalog page of \<^verbatim>\<open>script.js\<close>\<close>

text \<open>
  The script loads a JSON catalog of games, draws one card per game into
  \<^verbatim>\<open>#game-list-container\<close>, builds one filter button per distinct tag into
  \<^verbatim>\<open>#tag-filter-container\<close> and redraws the list when a button is clicked.

  The page is modelled as a record of the two containers, the module variable
  \<^verbatim>\<open>allGamesData\<close>, the click listener and the two error channels. Every function of
  the script is a function on that record. A JavaScript exception is a value: a function
  that can throw returns \<open>Inl (e, page)\<close>, the error together with the page as the
  statements before the throw left it, or \<open>Inr page\<close>.

  Text is \<open>string\<close>. A game is a JSON object whose keys are all optional: a text key is a
  \<open>string option\<close> and \<^verbatim>\<open>tags\<close> a \<open>string list option\<close>, \<open>None\<close> being the absent key
  (\<^verbatim>\<open>undefined\<close>). A response body does not parse, or parses to an array of such games, or
  parses to a JSON value that is no array: \<^verbatim>\<open>null\<close>, a boolean, a number, a string or an
  object. The script stores what it parsed without looking at it, so the variable
  \<^verbatim>\<open>allGamesData\<close> holds a value of either kind. Arrays with an element that is not such
  an object, and keys with a value of another type, are outside this model.

  The markup of the page is not part of the script. The model takes the children of the
  two containers as it finds them, and it reads the markup in the plainest way: the loading
  indicator, if there is one, is a child of the list container; the filter container has
  no grandchildren; and no element outside the filter container has the class
  \<^verbatim>\<open>tag-filter\<close>.
\<close>

subsection \<open>Data\<close>

record game =
  title :: "string option"
  description :: "string option"
  thumbnail :: "string option"
  link :: "string option"
  github_url :: "string option"
  tags :: "string list option"

text \<open>
  A JSON value, as a key of an object holds it. Numbers are integers here: the script only
  ever compares one with zero.
\<close>

datatype json =
    VNull | VBool bool | VNumber int | VString string | VArray "json list"
  | VObject "(string \<times> json) list"

text \<open>
  What \<^verbatim>\<open>response.json()\<close> resolves to, and what \<^verbatim>\<open>allGamesData\<close> holds: an array of
  games, or a value that is no array.
\<close>

datatype catalog =
    Games "game list"
  | JNull | JBool bool | JNumber int | JString string
  | JObject "(string \<times> json) list"

datatype js_error =
    LoadError string   \<comment> \<open>\<^verbatim>\<open>new Error(...)\<close> thrown by the loader, with its message\<close>
  | FetchError         \<comment> \<open>\<^verbatim>\<open>fetch\<close> rejected\<close>
  | SyntaxError        \<comment> \<open>\<^verbatim>\<open>response.json()\<close> rejected\<close>
  | TypeError          \<comment> \<open>a property of \<^verbatim>\<open>undefined\<close> or \<^verbatim>\<open>null\<close> was read, or a non-function called\<close>

text \<open>The \<^verbatim>\<open>img\<close> element of a card; \<open>img_onerror\<close> tells whether the handler is installed.\<close>

record img =
  img_className :: string
  img_alt :: string
  img_src :: string
  img_onerror :: bool

record anchor =
  a_className :: string
  a_href :: string
  a_target :: string
  a_innerHTML :: string

text \<open>
  A card: its \<^verbatim>\<open>data-tags\<close> attribute, the image, the content block (heading, paragraph
  and one \<^verbatim>\<open>span\<close> per tag) and the two buttons.
\<close>

record card =
  card_className :: string
  data_tags :: string
  card_img :: img
  content_h3 :: string
  content_p :: string
  card_tags :: "string list"
  playBtn :: anchor
  srcBtn :: anchor

text \<open>
  A child of \<^verbatim>\<open>#game-list-container\<close>: the loading indicator of the markup, a paragraph
  \<open>Paragraph style text\<close> written by the script, or a card.
\<close>

datatype node = LoadingMessage | Paragraph string string | CardNode card

text \<open>
  A child of \<^verbatim>\<open>#tag-filter-container\<close>. \<open>data_tag\<close> is \<open>None\<close> when the attribute is
  missing (\<^verbatim>\<open>getAttribute\<close> returns \<^verbatim>\<open>null\<close>).
\<close>

record element =
  classList :: "string list"
  textContent :: string
  data_tag :: "string option"

record page =
  allGamesData :: catalog
  gameListContainer :: "node list"
  tagFilterContainer :: "element list"
  clickListener :: bool            \<comment> \<open>\<^verbatim>\<open>handleTagFilterClick\<close> is registered on the filter container\<close>
  console :: "js_error list"       \<comment> \<open>what \<^verbatim>\<open>console.error\<close> was called with\<close>
  uncaught :: "js_error list"      \<comment> \<open>exceptions that left an event listener\<close>

text \<open>
  The result of \<^verbatim>\<open>fetch\<close>: a rejection, or a response; \<open>json\<close> is what \<^verbatim>\<open>response.json()\<close>
  resolves to, \<open>None\<close> when it rejects because the body is not JSON.
\<close>

datatype fetch_outcome =
    Rejected
  | Response (ok: bool) (statusText: string) (json: "catalog option")

text \<open>The target of a click inside the filter container: the container or its \<open>i\<close>-th child.\<close>

datatype event_target = Container | Child nat

subsection \<open>JavaScript primitives\<close>

text \<open>\<^verbatim>\<open>a || d\<close> on an optional text: \<^verbatim>\<open>undefined\<close> and the empty string are falsy.\<close>

definition or_else :: "string option \<Rightarrow> string \<Rightarrow> string" where
  "or_else a d = (case a of None \<Rightarrow> d | Some s \<Rightarrow> if s = [] then d else s)"

text \<open>\<^verbatim>\<open>a || []\<close> on an optional array: every array, also the empty one, is truthy.\<close>

definition or_empty :: "string list option \<Rightarrow> string list" where
  "or_empty a = (case a of None \<Rightarrow> [] | Some ts \<Rightarrow> ts)"

fun join :: "string \<Rightarrow> string list \<Rightarrow> string" where
  "join sep [] = []"
| "join sep [x] = x"
| "join sep (x # y # ys) = x @ sep @ join sep (y # ys)"

text \<open>
  \<^verbatim>\<open>toLowerCase\<close>, on the ASCII letters; other characters are left as they are.
\<close>

definition lower_char :: "char \<Rightarrow> char" where
  "lower_char c =
     (let n = (of_char c :: nat) in if 65 \<le> n \<and> n \<le> 90 then char_of (n + 32) else c)"

definition toLowerCase :: "string \<Rightarrow> string" where
  "toLowerCase s = map lower_char s"

text \<open>The value of a key of a parsed object; of a key written twice the last value counts.\<close>

definition property :: "(string \<times> json) list \<Rightarrow> string \<Rightarrow> json option" where
  "property members k = map_of (rev members) k"

text \<open>\<^verbatim>\<open>xs.includes(k)\<close> for an array of strings; \<^verbatim>\<open>null\<close> is never an element.\<close>

definition array_includes :: "string list \<Rightarrow> string option \<Rightarrow> bool" where
  "array_includes xs k = (case k of None \<Rightarrow> False | Some s \<Rightarrow> s \<in> set xs)"

text \<open>A \<^verbatim>\<open>Set\<close> of strings, in insertion order, and \<^verbatim>\<open>Set.add\<close>.\<close>

definition set_add :: "string list \<Rightarrow> string \<Rightarrow> string list" where
  "set_add u t = (if t \<in> set u then u else u @ [t])"

text \<open>\<^verbatim>\<open>classList.contains\<close>, \<^verbatim>\<open>classList.remove\<close> and \<^verbatim>\<open>classList.add\<close>.\<close>

definition classList_contains :: "element \<Rightarrow> string \<Rightarrow> bool" where
  "classList_contains e c = (c \<in> set (classList e))"

definition remove_class :: "string \<Rightarrow> element \<Rightarrow> element" where
  "remove_class c e = e\<lparr>classList := filter (\<lambda>x. x \<noteq> c) (classList e)\<rparr>"

definition add_class :: "string \<Rightarrow> element \<Rightarrow> element" where
  "add_class c e = (if c \<in> set (classList e) then e else e\<lparr>classList := classList e @ [c]\<rparr>)"

text \<open>
  \<^verbatim>\<open>encodeURI\<close> on ASCII text: letters, digits and the reserved and unreserved marks stay,
  every other character becomes \<^verbatim>\<open>%XX\<close>.
\<close>

definition hex_digit :: "nat \<Rightarrow> char" where
  "hex_digit n = (if n < 10 then char_of (48 + n) else char_of (55 + n))"

definition uri_keeps :: "char \<Rightarrow> bool" where
  "uri_keeps c =
     (let n = (of_char c :: nat) in
        (65 \<le> n \<and> n \<le> 90) \<or> (97 \<le> n \<and> n \<le> 122) \<or> (48 \<le> n \<and> n \<le> 57) \<or>
        c \<in> set '';,/?:@&=+$-_.!~*'()#'')"

definition encodeURI :: "string \<Rightarrow> string" where
  "encodeURI s =
     concat (map (\<lambda>c. if uri_keeps c then [c]
                       else [CHR ''%'', hex_digit (of_char c div 16), hex_digit (of_char c mod 16)]) s)"

subsection \<open>The List Renderer\<close>

definition placeholderSvg :: string where
  "placeholderSvg = encodeURI (
     ''data:image/svg+xml;utf8,'' @ [CHR 0x0A] @
     ''      <svg xmlns='http://www.w3.org/2000/svg' width='800' height='400'>'' @ [CHR 0x0A] @
     ''        <rect width='100%' height='100%' fill='%232c394b'/>'' @ [CHR 0x0A] @
     ''        <text x='50%' y='50%' dominant-baseline='middle' text-anchor='middle' fill='%23b0b0b0' font-family='Segoe UI, Arial' font-size='24'>No image</text>'' @ [CHR 0x0A] @
     ''      </svg>'' @ [CHR 0x0A] @
     ''    '')"

text \<open>The handler installed on every image: it removes itself, then sets the placeholder.\<close>

definition onerror_handler :: "img \<Rightarrow> img" where
  "onerror_handler i = (i\<lparr>img_onerror := False\<rparr>)\<lparr>img_src := placeholderSvg\<rparr>"

definition create_img :: "game \<Rightarrow> img" where
  "create_img g =
     \<lparr>img_className = ''game-thumbnail'',
      img_alt = or_else (title g) ''Game thumbnail'',
      img_src = or_else (thumbnail g) placeholderSvg,
      img_onerror = True\<rparr>"

definition create_card :: "game \<Rightarrow> card" where
  "create_card g =
     \<lparr>card_className = ''game-card'',
      data_tags = join '','' (or_empty (tags g)),
      card_img = create_img g,
      content_h3 = or_else (title g) ''Untitled'',
      content_p = or_else (description g) [],
      card_tags = or_empty (tags g),
      playBtn = \<lparr>a_className = ''play-button'', a_href = or_else (link g) ''#'',
                 a_target = ''_blank'', a_innerHTML = ''<i class=\"fas fa-gamepad\"></i> PLAY NOW''\<rparr>,
      srcBtn = \<lparr>a_className = ''source-button'', a_href = or_else (github_url g) ''#'',
                a_target = ''_blank'', a_innerHTML = ''<i class=\"fab fa-github\"></i> Code''\<rparr>\<rparr>"

definition no_results :: node where
  "no_results = Paragraph [] ''No games found matching the selected filter.''"

definition appendCard :: "game \<Rightarrow> page \<Rightarrow> page" where
  "appendCard g st = st\<lparr>gameListContainer := gameListContainer st @ [CardNode (create_card g)]\<rparr>"

definition renderGameList :: "game list \<Rightarrow> page \<Rightarrow> page" where
  "renderGameList games st =
     (let st1 = st\<lparr>gameListContainer := []\<rparr> in
      if length games = 0 then st1\<lparr>gameListContainer := [no_results]\<rparr>
      else fold appendCard games st1)"

text \<open>
  \<^verbatim>\<open>renderGameList\<close> called with whatever the variable holds. For an array of games it
  is the function above. For another value line 37 clears the list, then line 39 reads
  \<^verbatim>\<open>games.length\<close>: that throws on \<^verbatim>\<open>null\<close>; it is \<open>0\<close> for the empty string and for
  an object whose key \<^verbatim>\<open>length\<close> holds \<open>0\<close>, and then the "no results" paragraph is shown;
  in every other case line 52 calls \<^verbatim>\<open>games.forEach\<close>, which is no function.
\<close>

definition length_is_zero :: "catalog \<Rightarrow> js_error + bool" where
  "length_is_zero v =
     (case v of
        Games games \<Rightarrow> Inr (length games = 0)
      | JNull \<Rightarrow> Inl TypeError
      | JBool b \<Rightarrow> Inr False
      | JNumber n \<Rightarrow> Inr False
      | JString s \<Rightarrow> Inr (length s = 0)
      | JObject members \<Rightarrow> Inr (property members ''length'' = Some (VNumber 0)))"

definition renderGameList_value :: "catalog \<Rightarrow> page \<Rightarrow> (js_error \<times> page) + page" where
  "renderGameList_value v st =
     (case v of
        Games games \<Rightarrow> Inr (renderGameList games st)
      | _ \<Rightarrow>
          let st1 = st\<lparr>gameListContainer := []\<rparr> in
          (case length_is_zero v of
             Inl e \<Rightarrow> Inl (e, st1)
           | Inr True \<Rightarrow> Inr (st1\<lparr>gameListContainer := [no_results]\<rparr>)
           | Inr False \<Rightarrow> Inl (TypeError, st1)))"

text \<open>
  An \<^verbatim>\<open>error\<close> event on an image runs the handler if one is installed. \<open>fire_errors n\<close>
  is \<open>n\<close> such events in a row; it also counts the runs of the handler, the swaps.
\<close>

definition error_event :: "img \<Rightarrow> img" where
  "error_event i = (if img_onerror i then onerror_handler i else i)"

fun fire_errors :: "nat \<Rightarrow> img \<Rightarrow> img \<times> nat" where
  "fire_errors 0 i = (i, 0)"
| "fire_errors (Suc n) i =
     (if img_onerror i
      then (case fire_errors n (onerror_handler i) of (i', k) \<Rightarrow> (i', Suc k))
      else fire_errors n i)"

text \<open>
  The browser showing an image: \<open>loads\<close> tells which sources load. A source that fails
  fires an \<^verbatim>\<open>error\<close> event; when the handler has set a new source, that one is loaded
  in turn. The result is the image at rest and the number of swaps.
\<close>

function show_image :: "(string \<Rightarrow> bool) \<Rightarrow> img \<Rightarrow> img \<times> nat" where
  "show_image loads i =
     (if loads (img_src i) then (i, 0)
      else if img_onerror i
      then (case show_image loads (onerror_handler i) of (i', k) \<Rightarrow> (i', Suc k))
      else (i, 0))"
  by pat_completeness auto
termination
  by (relation "measure (\<lambda>(loads, i). if img_onerror i then 1 else 0)")
     (auto simp: onerror_handler_def)

subsection \<open>The Tag Filter Controller\<close>

text \<open>
  The first loop of \<^verbatim>\<open>populateTagFilters\<close>: every tag of every game is added to the
  set. Reading \<^verbatim>\<open>game.tags.forEach\<close> of a game with no \<^verbatim>\<open>tags\<close> throws.
\<close>

fun collect_tags :: "game list \<Rightarrow> string list \<Rightarrow> js_error + string list" where
  "collect_tags [] u = Inr u"
| "collect_tags (g # gs) u =
     (case tags g of
        None \<Rightarrow> Inl TypeError
      | Some ts \<Rightarrow> collect_tags gs (fold (\<lambda>t u. set_add u t) ts u))"

definition create_button :: "string \<Rightarrow> element" where
  "create_button t =
     \<lparr>classList = [''tag-filter''], textContent = t, data_tag = Some (toLowerCase t)\<rparr>"

definition appendButton :: "string \<Rightarrow> page \<Rightarrow> page" where
  "appendButton t st = st\<lparr>tagFilterContainer := tagFilterContainer st @ [create_button t]\<rparr>"

definition populateTagFilters :: "game list \<Rightarrow> page \<Rightarrow> (js_error \<times> page) + page" where
  "populateTagFilters games st =
     (case collect_tags games [] of
        Inl e \<Rightarrow> Inl (e, st)
      | Inr uniqueTags \<Rightarrow> Inr ((fold appendButton uniqueTags st)\<lparr>clickListener := True\<rparr>))"

text \<open>
  \<^verbatim>\<open>populateTagFilters\<close> called with whatever the variable holds: a value that is no array
  has no function \<^verbatim>\<open>forEach\<close>, so line 112 throws.
\<close>

definition populateTagFilters_value :: "catalog \<Rightarrow> page \<Rightarrow> (js_error \<times> page) + page" where
  "populateTagFilters_value v st =
     (case v of Games games \<Rightarrow> populateTagFilters games st | _ \<Rightarrow> Inl (TypeError, st))"

text \<open>
  \<^verbatim>\<open>allGamesData.filter(game => game.tags.map(t => t.toLowerCase()).includes(selectedTag))\<close>:
  the callback runs on every game, in order, and throws on a game with no \<^verbatim>\<open>tags\<close>.
\<close>

fun filter_games :: "string option \<Rightarrow> game list \<Rightarrow> js_error + game list" where
  "filter_games k [] = Inr []"
| "filter_games k (g # gs) =
     (case tags g of
        None \<Rightarrow> Inl TypeError
      | Some ts \<Rightarrow>
          (case filter_games k gs of
             Inl e \<Rightarrow> Inl e
           | Inr r \<Rightarrow> Inr (if array_includes (map toLowerCase ts) k then g # r else r)))"

text \<open>
  The filter logic of lines 146 to 153: the value of \<^verbatim>\<open>filteredGames\<close> for a selected
  tag, computed from \<^verbatim>\<open>allGamesData\<close>.
\<close>

definition filter_logic :: "string option \<Rightarrow> game list \<Rightarrow> js_error + game list" where
  "filter_logic selectedTag games =
     (if selectedTag = Some ''all'' then Inr games else filter_games selectedTag games)"

text \<open>
  The same lines on whatever the variable holds: the key "all" hands the value on as it
  is; for any other key a value that is no array has no function \<^verbatim>\<open>filter\<close>.
\<close>

definition filter_logic_value :: "string option \<Rightarrow> catalog \<Rightarrow> js_error + catalog" where
  "filter_logic_value selectedTag v =
     (case v of
        Games games \<Rightarrow>
          (case filter_logic selectedTag games of
             Inl e \<Rightarrow> Inl e
           | Inr filteredGames \<Rightarrow> Inr (Games filteredGames))
      | _ \<Rightarrow> if selectedTag = Some ''all'' then Inr v else Inl TypeError)"

text \<open>
  \<^verbatim>\<open>event.target\<close> as an element of the filter container. The container itself is not a
  filter control; an index past the last child names no element, and the click is dropped.
\<close>

definition target_element :: "event_target \<Rightarrow> page \<Rightarrow> element option" where
  "target_element ev st =
     (case ev of
        Container \<Rightarrow> None
      | Child i \<Rightarrow> if i < length (tagFilterContainer st) then Some (tagFilterContainer st ! i) else None)"

text \<open>
  Lines 140 and 143: \<^verbatim>\<open>active\<close> is removed from every element of class
  \<^verbatim>\<open>tag-filter\<close>, then added to the clicked one.
\<close>

definition deactivate_all :: "element list \<Rightarrow> element list" where
  "deactivate_all es =
     map (\<lambda>e. if classList_contains e ''tag-filter'' then remove_class ''active'' e else e) es"

definition activate :: "event_target \<Rightarrow> element list \<Rightarrow> element list" where
  "activate ev es = (case ev of Container \<Rightarrow> es | Child i \<Rightarrow> es[i := add_class ''active'' (es ! i)])"

definition handleTagFilterClick :: "event_target \<Rightarrow> page \<Rightarrow> (js_error \<times> page) + page" where
  "handleTagFilterClick ev st =
     (case target_element ev st of
        None \<Rightarrow> Inr st
      | Some clickedButton \<Rightarrow>
          if \<not> classList_contains clickedButton ''tag-filter'' then Inr st
          else
            let selectedTag = data_tag clickedButton;
                st1 = st\<lparr>tagFilterContainer := deactivate_all (tagFilterContainer st)\<rparr>;
                st2 = st1\<lparr>tagFilterContainer := activate ev (tagFilterContainer st1)\<rparr>
            in (case filter_logic_value selectedTag (allGamesData st2) of
                  Inl e \<Rightarrow> Inl (e, st2)
                | Inr filteredGames \<Rightarrow> renderGameList_value filteredGames st2))"

text \<open>
  A click in the filter container, as the browser delivers it: the listener runs if it is
  registered, and an exception that leaves it is reported as uncaught.
\<close>

definition click :: "event_target \<Rightarrow> page \<Rightarrow> page" where
  "click ev st =
     (if clickListener st
      then (case handleTagFilterClick ev st of
              Inl (e, st') \<Rightarrow> st'\<lparr>uncaught := uncaught st' @ [e]\<rparr>
            | Inr st' \<Rightarrow> st')
      else st)"

text \<open>The page a call leaves behind, whether it returned or threw.\<close>

definition page_after :: "(js_error \<times> page) + page \<Rightarrow> page" where
  "page_after r = (case r of Inl (e, st) \<Rightarrow> st | Inr st \<Rightarrow> st)"

subsection \<open>The Catalog Loader\<close>

definition error_paragraph :: node where
  "error_paragraph =
     Paragraph ''color:red;'' ''Error: Could not load game catalog. Check console for details.''"

text \<open>The \<^verbatim>\<open>catch\<close> block of \<^verbatim>\<open>loadGameCatalog\<close>.\<close>

definition catch_block :: "js_error \<Rightarrow> page \<Rightarrow> page" where
  "catch_block e st = (st\<lparr>console := console st @ [e]\<rparr>)\<lparr>gameListContainer := [error_paragraph]\<rparr>"

text \<open>
  \<^verbatim>\<open>loadGameCatalog\<close>, given what \<^verbatim>\<open>fetch\<close> produced. Line 17 stores the parsed value
  before anything looks at it. Everything runs inside the \<^verbatim>\<open>try\<close>, so every exception,
  also one of the renderer's or of the filter setup, ends in the \<^verbatim>\<open>catch\<close> block. The
  loading indicator is looked up by id and removed.
\<close>

definition loadGameCatalog :: "fetch_outcome \<Rightarrow> page \<Rightarrow> page" where
  "loadGameCatalog fo st =
     (case fo of
        Rejected \<Rightarrow> catch_block FetchError st
      | Response _ _ _ \<Rightarrow>
          if \<not> ok fo then catch_block (LoadError (''Failed to load catalog: '' @ statusText fo)) st
          else
            (case json fo of
               None \<Rightarrow> catch_block SyntaxError st
             | Some parsed \<Rightarrow>
                 let st1 = st\<lparr>allGamesData := parsed\<rparr>;
                     st2 = st1\<lparr>gameListContainer := remove1 LoadingMessage (gameListContainer st1)\<rparr>
                 in (case renderGameList_value (allGamesData st2) st2 of
                       Inl (e, st3) \<Rightarrow> catch_block e st3
                     | Inr st3 \<Rightarrow>
                         (case populateTagFilters_value (allGamesData st3) st3 of
                            Inl (e, st4) \<Rightarrow> catch_block e st4
                          | Inr st4 \<Rightarrow> st4))))"

text \<open>
  The page before the script's \<^verbatim>\<open>DOMContentLoaded\<close> listener runs: \<^verbatim>\<open>allGamesData\<close> is
  the empty array of line 4, the two containers hold what the markup put there.
\<close>

definition initial_page :: "node list \<Rightarrow> element list \<Rightarrow> page" where
  "initial_page list_markup filter_markup =
     \<lparr>allGamesData = Games [], gameListContainer = list_markup, tagFilterContainer = filter_markup,
      clickListener = False, console = [], uncaught = []\<rparr>"

subsection \<open>Observations\<close>

text \<open>The cards on display, in order.\<close>

fun shown_cards :: "node list \<Rightarrow> card list" where
  "shown_cards [] = []"
| "shown_cards (CardNode c # ns) = c # shown_cards ns"
| "shown_cards (n # ns) = shown_cards ns"

text \<open>Every tag of the catalog, in order, with repetitions; absent \<^verbatim>\<open>tags\<close> give none.\<close>

definition catalog_tags :: "game list \<Rightarrow> string list" where
  "catalog_tags games = concat (map (\<lambda>g. or_empty (tags g)) games)"

text \<open>Whether a record carries tag \<open>t\<close>, up to case.\<close>

definition tagged :: "string \<Rightarrow> game \<Rightarrow> bool" where
  "tagged t g = (toLowerCase t \<in> set (map toLowerCase (or_empty (tags g))))"

text \<open>
  The \<open>i\<close>-th child of the filter container is a filter control when it has the class
  \<^verbatim>\<open>tag-filter\<close>; it is marked active when it also has the class \<^verbatim>\<open>active\<close>.
\<close>

definition filter_control :: "page \<Rightarrow> nat \<Rightarrow> bool" where
  "filter_control st i =
     (i < length (tagFilterContainer st) \<and> classList_contains (tagFilterContainer st ! i) ''tag-filter'')"

definition marked_active :: "element \<Rightarrow> bool" where
  "marked_active e = (classList_contains e ''tag-filter'' \<and> classList_contains e ''active'')"

definition active_controls :: "page \<Rightarrow> nat list" where
  "active_controls st =
     filter (\<lambda>i. marked_active (tagFilterContainer st ! i)) [0..<length (tagFilterContainer st)]"

text \<open>The page with the \<open>i\<close>-th child of the filter container as the only active control.\<close>

definition with_only_active :: "nat \<Rightarrow> page \<Rightarrow> page" where
  "with_only_active i st =
     st\<lparr>tagFilterContainer := activate (Child i) (deactivate_all (tagFilterContainer st))\<rparr>"

text \<open>The distinct tags of a catalog, in the order the set of the setup holds them.\<close>

definition unique_tags :: "game list \<Rightarrow> string list" where
  "unique_tags games = fold (\<lambda>t u. set_add u t) (catalog_tags games) []"



text \<open>The record of the example: a title and two tags, nothing else.\<close>

definition snake :: game where
  "snake =
     \<lparr>title = Some ''Snake'', description = None, thumbnail = None, link = None,
      github_url = None, tags = Some [''arcade'', ''classic'']\<rparr>"

text \<open>A record with no key at all.\<close>

definition bare :: game where
  "bare =
     \<lparr>title = None, description = None, thumbnail = None, link = None,
      github_url = None, tags = None\<rparr>"

text \<open>A record tagged "All" and "co-op".\<close>

definition party :: game where
  "party =
     \<lparr>title = Some ''Party'', description = Some ''Everyone plays'', thumbnail = Some ''party.png'',
      link = Some ''party/index.html'', github_url = None, tags = Some [''All'', ''co-op'']\<rparr>"

text \<open>A record whose only tag differs from a tag of \<open>snake\<close> by case.\<close>

definition retro :: game where
  "retro =
     \<lparr>title = Some ''Retro'', description = None, thumbnail = None, link = None,
      github_url = Some ''https://example.org/retro'', tags = Some [''Arcade'']\<rparr>"

text \<open>
  Two children the markup may put into the filter container: the button of the "all"
  pseudo-tag, marked active, and a caption that is not a filter control.
\<close>

definition all_button :: element where
  "all_button =
     \<lparr>classList = [''tag-filter'', ''active''], textContent = ''All Games'', data_tag = Some ''all''\<rparr>"

definition caption :: element where
  "caption = \<lparr>classList = [''filter-caption''], textContent = ''Filter by tag'', data_tag = None\<rparr>"

text \<open>
  The page after the catalog of \<open>party\<close> and \<open>snake\<close> has loaded over that markup; and a
  page of the same shape whose catalog holds a record without \<^verbatim>\<open>tags\<close>.
\<close>

definition portal :: page where
  "portal =
     loadGameCatalog (Response True ''OK'' (Some (Games [party, snake])))
       (initial_page [LoadingMessage] [all_button, caption])"

definition broken_portal :: page where
  "broken_portal = portal\<lparr>allGamesData := Games [snake, bare]\<rparr>"



section \<open>Properties of the renderer\<close>

declare show_image.simps [simp del]

lemma fold_appendCard:
  "fold appendCard games st =
     st\<lparr>gameListContainer := gameListContainer st @ map (\<lambda>g. CardNode (create_card g)) games\<rparr>"
  by (induction games arbitrary: st) (simp_all add: appendCard_def)

lemma renderGameList_eq:
  "renderGameList games st =
     st\<lparr>gameListContainer :=
          (if games = [] then [no_results] else map (\<lambda>g. CardNode (create_card g)) games)\<rparr>"
  by (simp add: renderGameList_def fold_appendCard)

lemma shown_cards_map [simp]: "shown_cards (map (\<lambda>g. CardNode (f g)) gs) = map f gs"
  by (induction gs) simp_all

lemma shown_cards_render:
  "shown_cards (gameListContainer (renderGameList games st)) = map create_card games"
  by (simp add: renderGameList_eq no_results_def)

text \<open>
  C5. Whatever was on display, \<^verbatim>\<open>renderGameList\<close> replaces it: the result is the page
  with the list container set to the "no results" paragraph alone when the input is empty,
  and to one card per record otherwise; nothing of the old content is left and nothing else
  on the page changes. So rendering any \<open>S\<close> and then the empty sequence shows exactly the
  "no results" paragraph and no card.
\<close>

theorem renderGameList_clears_first:
  "renderGameList games st =
     st\<lparr>gameListContainer :=
          (if games = [] then [no_results] else map (\<lambda>g. CardNode (create_card g)) games)\<rparr>
   \<and> gameListContainer (renderGameList [] st) = [no_results]
   \<and> gameListContainer (renderGameList [] (renderGameList S st)) = [no_results]
   \<and> shown_cards (gameListContainer (renderGameList [] (renderGameList S st))) = []
   \<and> no_results = Paragraph [] ''No games found matching the selected filter.''"
  by (simp add: renderGameList_eq no_results_def)

text \<open>
  C4. The renderer draws a card for every record it is given, whatever keys the record
  lacks (it is a total function: no branch of it throws). On the card an absent title
  reads "Untitled", an absent description is the empty text, an absent thumbnail is the
  placeholder image, an absent \<^verbatim>\<open>link\<close> or \<^verbatim>\<open>github_url\<close> is the inert target
  \<^verbatim>\<open>#\<close>, and absent or empty tags give no badge. The record \<open>snake\<close> (title "Snake", tags
  "arcade" and "classic", no thumbnail, no link) gives the title "Snake", the placeholder
  image, the two badges and a play control on \<^verbatim>\<open>#\<close>.
\<close>

theorem renderer_defaults_missing_fields:
  "shown_cards (gameListContainer (renderGameList (g # gs) st)) = map create_card (g # gs)
   \<and> (title g = None \<longrightarrow> content_h3 (create_card g) = ''Untitled'')
   \<and> (description g = None \<longrightarrow> content_p (create_card g) = [])
   \<and> (thumbnail g = None \<longrightarrow> img_src (card_img (create_card g)) = placeholderSvg)
   \<and> (link g = None \<longrightarrow> a_href (playBtn (create_card g)) = ''#'')
   \<and> (github_url g = None \<longrightarrow> a_href (srcBtn (create_card g)) = ''#'')
   \<and> (tags g = None \<or> tags g = Some [] \<longrightarrow>
        card_tags (create_card g) = [] \<and> data_tags (create_card g) = [])
   \<and> content_h3 (create_card snake) = ''Snake''
   \<and> img_src (card_img (create_card snake)) = placeholderSvg
   \<and> card_tags (create_card snake) = [''arcade'', ''classic'']
   \<and> a_href (playBtn (create_card snake)) = ''#''"
proof -
  have "shown_cards (gameListContainer (renderGameList (g # gs) st)) = map create_card (g # gs)"
    by (rule shown_cards_render)
  moreover have "content_h3 (create_card snake) = ''Snake''"
    and "img_src (card_img (create_card snake)) = placeholderSvg"
    and "card_tags (create_card snake) = [''arcade'', ''classic'']"
    and "a_href (playBtn (create_card snake)) = ''#''"
    by (simp_all add: create_card_def create_img_def snake_def or_else_def or_empty_def)
  ultimately show ?thesis
    by (auto simp: create_card_def create_img_def or_else_def or_empty_def)
qed

theorem renderer_defaults_missing_fields_witness:
  "title bare = None \<and> description bare = None \<and> thumbnail bare = None \<and> link bare = None
   \<and> github_url bare = None \<and> tags bare = None
   \<and> shown_cards (gameListContainer (renderGameList [bare] (initial_page [] []))) = [create_card bare]
   \<and> content_h3 (create_card bare) = ''Untitled''
   \<and> content_p (create_card bare) = []
   \<and> img_src (card_img (create_card bare)) = placeholderSvg
   \<and> a_href (playBtn (create_card bare)) = ''#''
   \<and> a_href (srcBtn (create_card bare)) = ''#''
   \<and> card_tags (create_card bare) = []"
proof -
  have absent: "title bare = None" "description bare = None" "thumbnail bare = None"
    "link bare = None" "github_url bare = None" "tags bare = None"
    by (simp_all add: bare_def)
  from renderer_defaults_missing_fields [of bare "[]" "initial_page [] []"] absent
  show ?thesis by simp
qed

lemma fire_errors_no_handler: "\<not> img_onerror i \<Longrightarrow> fire_errors n i = (i, 0)"
  by (induction n) simp_all

lemma onerror_handler_removes_itself [simp]: "\<not> img_onerror (onerror_handler i)"
  by (simp add: onerror_handler_def)

lemma show_image_at_most_one_swap: "snd (show_image loads i) \<le> 1"
proof (cases "loads (img_src i) \<or> \<not> img_onerror i")
  case True
  then show ?thesis
    by (subst show_image.simps) auto
next
  case False
  have "show_image loads (onerror_handler i) = (onerror_handler i, 0)"
    by (subst show_image.simps) simp
  with False show ?thesis
    by (subst show_image.simps) simp
qed

text \<open>
  C7. The failure callback is idempotent. On the image of any card the first \<^verbatim>\<open>error\<close>
  event swaps the source for the placeholder and removes the callback, so \<open>n + 1\<close>
  failures in a row make exactly one swap; on an image whose callback has run, any number
  of further failures changes nothing. The browser's load-and-retry loop \<open>show_image\<close>
  terminates with at most one swap for every image and every set of loadable sources, and
  when no source loads at all, the placeholder included, it stops after the one swap.
\<close>

theorem onerror_swaps_once:
  "error_event (error_event i) = error_event i
   \<and> error_event (create_img g) = onerror_handler (create_img g)
   \<and> img_src (error_event (create_img g)) = placeholderSvg
   \<and> fire_errors (Suc n) (create_img g) = (onerror_handler (create_img g), 1)
   \<and> fire_errors n (onerror_handler i) = (onerror_handler i, 0)
   \<and> snd (show_image loads i) \<le> 1
   \<and> show_image (\<lambda>source. False) (create_img g) = (onerror_handler (create_img g), 1)"
proof -
  have fresh: "img_onerror (create_img g)"
    by (simp add: create_img_def)
  have idem: "error_event (error_event i) = error_event i"
    by (simp add: error_event_def)
  have later: "fire_errors n (onerror_handler j) = (onerror_handler j, 0)" for j
    by (simp add: fire_errors_no_handler)
  have first: "fire_errors (Suc n) (create_img g) = (onerror_handler (create_img g), 1)"
    using fresh by (simp add: later)
  have rest: "show_image (\<lambda>source. False) (onerror_handler (create_img g)) =
      (onerror_handler (create_img g), 0)"
    by (subst show_image.simps) simp
  have loop: "show_image (\<lambda>source. False) (create_img g) = (onerror_handler (create_img g), 1)"
    using fresh by (subst show_image.simps) (simp add: rest)
  have src: "img_src (error_event (create_img g)) = placeholderSvg"
    using fresh by (simp add: error_event_def onerror_handler_def)
  show ?thesis
    using fresh idem later first loop src show_image_at_most_one_swap [of loads i]
    by (simp add: error_event_def)
qed

section \<open>Properties of the filter setup\<close>

lemma set_fold_set_add: "set (fold (\<lambda>t u. set_add u t) ts u) = set u \<union> set ts"
  by (induction ts arbitrary: u) (auto simp: set_add_def)

lemma distinct_fold_set_add: "distinct u \<Longrightarrow> distinct (fold (\<lambda>t u. set_add u t) ts u)"
  by (induction ts arbitrary: u) (auto simp: set_add_def)

lemma collect_tags_absent:
  "\<exists>g \<in> set games. tags g = None \<Longrightarrow> collect_tags games u = Inl TypeError"
  by (induction games arbitrary: u) (auto split: option.splits)

lemma collect_tags_present:
  "\<forall>g \<in> set games. tags g \<noteq> None \<Longrightarrow>
   collect_tags games u = Inr (fold (\<lambda>t u. set_add u t) (catalog_tags games) u)"
  by (induction games arbitrary: u) (auto simp: catalog_tags_def or_empty_def split: option.splits)

lemma fold_appendButton:
  "fold appendButton ts st = st\<lparr>tagFilterContainer := tagFilterContainer st @ map create_button ts\<rparr>"
  by (induction ts arbitrary: st) (simp_all add: appendButton_def)

lemma populateTagFilters_absent:
  "\<exists>g \<in> set games. tags g = None \<Longrightarrow> populateTagFilters games st = Inl (TypeError, st)"
  by (simp add: populateTagFilters_def collect_tags_absent)

lemma populateTagFilters_present:
  "\<forall>g \<in> set games. tags g \<noteq> None \<Longrightarrow>
   populateTagFilters games st =
     Inr (st\<lparr>tagFilterContainer := tagFilterContainer st @ map create_button (unique_tags games),
              clickListener := True\<rparr>)"
  by (simp add: populateTagFilters_def collect_tags_present fold_appendButton unique_tags_def)

lemma distinct_unique_tags: "distinct (unique_tags games)"
  by (simp add: unique_tags_def distinct_fold_set_add)

lemma set_unique_tags: "set (unique_tags games) = set (catalog_tags games)"
  by (simp add: unique_tags_def set_fold_set_add)

lemma lower_examples:
  "toLowerCase ''All'' = ''all''" "toLowerCase ''co-op'' = ''co-op''"
  "toLowerCase ''arcade'' = ''arcade''" "toLowerCase ''classic'' = ''classic''"
  "toLowerCase ''Arcade'' = ''arcade''" "toLowerCase ''arc'' = ''arc''"
  by code_simp+

text \<open>
  C8. On a catalog in which every record has a \<^verbatim>\<open>tags\<close> sequence, the setup appends to
  the filter container one control per distinct tag string of the catalog and nothing else:
  the new controls are \<open>create_button\<close> of the tags of \<open>unique_tags\<close>, a list without
  repetition holding exactly the tag strings that occur in the catalog (compared as
  strings, so case matters). Each control is labelled with the tag as written, keyed by
  its lower-cased form, and has the class \<^verbatim>\<open>tag-filter\<close>. The handler is registered.
\<close>

theorem populateTagFilters_one_control_per_tag:
  assumes "\<forall>g \<in> set games. tags g \<noteq> None"
  shows "populateTagFilters games st =
           Inr (st\<lparr>tagFilterContainer := tagFilterContainer st @ map create_button (unique_tags games),
                    clickListener := True\<rparr>)
         \<and> distinct (unique_tags games)
         \<and> set (unique_tags games) = set (catalog_tags games)
         \<and> textContent (create_button t) = t
         \<and> data_tag (create_button t) = Some (toLowerCase t)
         \<and> classList (create_button t) = [''tag-filter'']"
  using assms
  by (simp add: populateTagFilters_present distinct_unique_tags set_unique_tags create_button_def)

theorem populateTagFilters_one_control_per_tag_witness:
  "tags snake \<noteq> None \<and> tags retro \<noteq> None
   \<and> populateTagFilters [snake, retro] (initial_page [] []) =
       Inr ((initial_page [] [])
              \<lparr>tagFilterContainer :=
                 [\<lparr>classList = [''tag-filter''], textContent = ''arcade'', data_tag = Some ''arcade''\<rparr>,
                  \<lparr>classList = [''tag-filter''], textContent = ''classic'', data_tag = Some ''classic''\<rparr>,
                  \<lparr>classList = [''tag-filter''], textContent = ''Arcade'', data_tag = Some ''arcade''\<rparr>],
               clickListener := True\<rparr>)
   \<and> set (unique_tags [snake, retro]) = {''arcade'', ''classic'', ''Arcade''}"
proof -
  have present: "\<forall>g \<in> set [snake, retro]. tags g \<noteq> None"
    by (simp add: snake_def retro_def)
  have tags: "unique_tags [snake, retro] = [''arcade'', ''classic'', ''Arcade'']"
    by (simp add: unique_tags_def catalog_tags_def or_empty_def set_add_def snake_def retro_def)
  from populateTagFilters_one_control_per_tag [OF present, of "initial_page [] []"] present
  show ?thesis
    by (simp add: tags create_button_def lower_examples initial_page_def)
qed

text \<open>
  C3, as amended. On a catalog with a record that has no \<^verbatim>\<open>tags\<close>, the setup throws a
  \<open>TypeError\<close> before it has created any control or registered the handler, while the
  renderer draws a card for every record of the same catalog. The setup does not handle the
  fault itself, but its only caller does: the loader's \<^verbatim>\<open>catch\<close> block logs it and
  replaces the cards just drawn by the error paragraph; \<^verbatim>\<open>allGamesData\<close> keeps the
  catalog, and nothing reaches the uncaught-error channel.
\<close>

theorem populateTagFilters_faults_on_absent_tags:
  assumes "\<exists>g \<in> set games. tags g = None"
  shows "populateTagFilters games st = Inl (TypeError, st)
         \<and> shown_cards (gameListContainer (renderGameList games st)) = map create_card games
         \<and> loadGameCatalog (Response True status (Some (Games games))) st =
             st\<lparr>allGamesData := Games games, gameListContainer := [error_paragraph],
                console := console st @ [TypeError]\<rparr>"
proof -
  have "loadGameCatalog (Response True status (Some (Games games))) st =
             st\<lparr>allGamesData := Games games, gameListContainer := [error_paragraph],
                console := console st @ [TypeError]\<rparr>"
    using assms
    by (simp add: loadGameCatalog_def renderGameList_value_def populateTagFilters_value_def
        populateTagFilters_absent renderGameList_eq catch_block_def)
  then show ?thesis
    using assms populateTagFilters_absent shown_cards_render by simp
qed

theorem populateTagFilters_faults_on_absent_tags_witness:
  "tags bare = None
   \<and> populateTagFilters [snake, bare] (initial_page [LoadingMessage] []) =
       Inl (TypeError, initial_page [LoadingMessage] [])
   \<and> shown_cards (gameListContainer (renderGameList [snake, bare] (initial_page [LoadingMessage] []))) =
       [create_card snake, create_card bare]
   \<and> loadGameCatalog (Response True ''OK'' (Some (Games [snake, bare]))) (initial_page [LoadingMessage] []) =
       \<lparr>allGamesData = Games [snake, bare], gameListContainer = [error_paragraph],
        tagFilterContainer = [], clickListener = False, console = [TypeError], uncaught = []\<rparr>"
proof -
  have absent: "\<exists>g \<in> set [snake, bare]. tags g = None"
    by (simp add: bare_def)
  from populateTagFilters_faults_on_absent_tags [OF absent, of "initial_page [LoadingMessage] []" "''OK''"]
  show ?thesis
    by (simp add: initial_page_def bare_def)
qed

text \<open>
  The claim as written calls the fault unhandled. On the catalog of \<open>snake\<close> and \<open>bare\<close>
  the load ends normally: the fault is in the console log, the uncaught-error channel is
  empty and the error paragraph is on display.
\<close>

theorem setup_fault_is_caught_by_loader:
  "uncaught (loadGameCatalog (Response True ''OK'' (Some (Games [snake, bare]))) (initial_page [LoadingMessage] [])) = []
   \<and> console (loadGameCatalog (Response True ''OK'' (Some (Games [snake, bare]))) (initial_page [LoadingMessage] [])) = [TypeError]
   \<and> gameListContainer (loadGameCatalog (Response True ''OK'' (Some (Games [snake, bare]))) (initial_page [LoadingMessage] [])) =
       [error_paragraph]"
proof -
  have "\<exists>g \<in> set [snake, bare]. tags g = None"
    by (simp add: bare_def)
  then have "populateTagFilters [snake, bare] st = Inl (TypeError, st)" for st
    by (rule populateTagFilters_absent)
  then show ?thesis
    by (simp add: loadGameCatalog_def renderGameList_value_def populateTagFilters_value_def
        renderGameList_eq catch_block_def initial_page_def)
qed

section \<open>Properties of the filter activation\<close>

lemma filter_games_present:
  "\<forall>g \<in> set games. tags g \<noteq> None \<Longrightarrow>
   filter_games k games =
     Inr (filter (\<lambda>g. array_includes (map toLowerCase (or_empty (tags g))) k) games)"
  by (induction games) (auto simp: or_empty_def)

lemma filter_games_absent:
  "\<exists>g \<in> set games. tags g = None \<Longrightarrow> filter_games k games = Inl TypeError"
proof (induction games)
  case Nil
  then show ?case by simp
next
  case (Cons a games)
  show ?case
  proof (cases "tags a")
    case None
    then show ?thesis by simp
  next
    case (Some ts)
    with Cons.prems have "\<exists>g \<in> set games. tags g = None" by auto
    then have "filter_games k games = Inl TypeError" by (rule Cons.IH)
    with Some show ?thesis by simp
  qed
qed

lemma filter_logic_tag:
  "\<forall>g \<in> set games. tags g \<noteq> None \<Longrightarrow> toLowerCase t \<noteq> ''all'' \<Longrightarrow>
   filter_logic (Some (toLowerCase t)) games = Inr (filter (tagged t) games)"
proof -
  have "tagged t = (\<lambda>g. array_includes (map toLowerCase (or_empty (tags g))) (Some (toLowerCase t)))"
    by (simp add: fun_eq_iff tagged_def array_includes_def)
  then show "\<forall>g \<in> set games. tags g \<noteq> None \<Longrightarrow> toLowerCase t \<noteq> ''all'' \<Longrightarrow>
   filter_logic (Some (toLowerCase t)) games = Inr (filter (tagged t) games)"
    by (simp add: filter_logic_def filter_games_present)
qed

lemma filter_logic_all: "filter_logic (Some ''all'') games = Inr games"
  by (simp add: filter_logic_def)

lemma handle_recognized:
  "filter_control st i \<Longrightarrow> allGamesData st = Games catalog \<Longrightarrow>
   handleTagFilterClick (Child i) st =
     (case filter_logic (data_tag (tagFilterContainer st ! i)) catalog of
        Inl e \<Rightarrow> Inl (e, with_only_active i st)
      | Inr filteredGames \<Rightarrow> Inr (renderGameList filteredGames (with_only_active i st)))"
  by (simp add: handleTagFilterClick_def target_element_def filter_control_def
      with_only_active_def filter_logic_value_def renderGameList_value_def Let_def
      split: sum.splits)

lemma renderGameList_value_controls:
  "tagFilterContainer (page_after (renderGameList_value v st)) = tagFilterContainer st"
  by (cases v)
    (simp_all add: renderGameList_value_def page_after_def renderGameList_eq Let_def
      split: sum.splits bool.splits)

lemma handle_recognized_controls:
  "filter_control st i \<Longrightarrow>
   tagFilterContainer (page_after (handleTagFilterClick (Child i) st)) =
     tagFilterContainer (with_only_active i st)"
  by (simp add: handleTagFilterClick_def target_element_def filter_control_def Let_def
      renderGameList_value_controls split: sum.splits)
    (simp add: page_after_def with_only_active_def)

lemma active_controls_cong:
  "tagFilterContainer a = tagFilterContainer b \<Longrightarrow> active_controls a = active_controls b"
  by (simp add: active_controls_def)

lemma handle_ignored:
  "\<forall>i. ev = Child i \<longrightarrow> \<not> filter_control st i \<Longrightarrow> handleTagFilterClick ev st = Inr st"
  by (cases ev) (auto simp: handleTagFilterClick_def target_element_def filter_control_def)

lemma filter_control_shown [simp]:
  "filter_control (st\<lparr>gameListContainer := shown\<rparr>) i = filter_control st i"
  by (simp add: filter_control_def)

lemma with_only_active_shown:
  "with_only_active i (st\<lparr>gameListContainer := shown\<rparr>) = (with_only_active i st)\<lparr>gameListContainer := shown\<rparr>"
  by (simp add: with_only_active_def)

lemma filter_eq_upt: "filter (\<lambda>j. j = i) [0..<n] = (if i < n then [i] else [])"
  by (induction n) auto

lemma filter_upt_single:
  assumes "i < n" and "\<forall>j<n. Q j \<longleftrightarrow> j = i"
  shows "filter Q [0..<n] = [i]"
proof -
  have "filter Q [0..<n] = filter (\<lambda>j. j = i) [0..<n]"
    using assms(2) by (intro filter_cong) auto
  also have "\<dots> = [i]"
    using assms(1) by (simp add: filter_eq_upt)
  finally show ?thesis .
qed

lemma not_marked_after_deactivate: "\<not> marked_active (if classList_contains e ''tag-filter'' then remove_class ''active'' e else e)"
  by (simp add: marked_active_def classList_contains_def remove_class_def)

lemma marked_after_activate:
  "classList_contains e ''tag-filter'' \<Longrightarrow> marked_active (add_class ''active'' (remove_class ''active'' e))"
  by (simp add: marked_active_def classList_contains_def remove_class_def add_class_def)

lemma active_controls_deactivated:
  "active_controls (st\<lparr>tagFilterContainer := deactivate_all (tagFilterContainer st)\<rparr>) = []"
  by (simp add: active_controls_def deactivate_all_def not_marked_after_deactivate)

lemma active_controls_with_only_active:
  assumes "filter_control st i"
  shows "active_controls (with_only_active i st) = [i]"
proof -
  let ?es = "tagFilterContainer st"
  let ?es' = "(deactivate_all ?es)[i := add_class ''active'' (deactivate_all ?es ! i)]"
  from assms have i: "i < length ?es" and c: "classList_contains (?es ! i) ''tag-filter''"
    by (simp_all add: filter_control_def)
  have "marked_active (?es' ! j) \<longleftrightarrow> j = i" if "j < length ?es" for j
  proof (cases "j = i")
    case True
    with i c show ?thesis
      by (simp add: deactivate_all_def marked_after_activate)
  next
    case False
    with that show ?thesis
      by (simp add: deactivate_all_def not_marked_after_deactivate)
  qed
  then have "filter (\<lambda>j. marked_active (?es' ! j)) [0..<length ?es] = [i]"
    using i by (intro filter_upt_single) simp_all
  then show ?thesis
    by (simp add: active_controls_def with_only_active_def activate_def deactivate_all_def)
qed

lemma active_controls_render [simp]:
  "active_controls (renderGameList games st) = active_controls st"
  by (simp add: renderGameList_eq active_controls_def)

lemma active_controls_uncaught [simp]:
  "active_controls (st\<lparr>uncaught := u\<rparr>) = active_controls st"
  by (simp add: active_controls_def)

lemma active_controls_after_handle:
  "filter_control st i \<Longrightarrow> active_controls (page_after (handleTagFilterClick (Child i) st)) = [i]"
  using active_controls_cong [OF handle_recognized_controls, of st i]
  by (simp add: active_controls_with_only_active)

lemma click_ignored:
  "\<forall>i. ev = Child i \<longrightarrow> \<not> filter_control st i \<Longrightarrow> click ev st = st"
  by (simp add: click_def handle_ignored)

lemma click_recognized:
  assumes "clickListener st" and "filter_control st i"
  shows "active_controls (click (Child i) st) = [i]"
proof -
  have "tagFilterContainer (click (Child i) st) =
      tagFilterContainer (page_after (handleTagFilterClick (Child i) st))"
    using assms(1) by (simp add: click_def page_after_def split: sum.splits prod.splits)
  then have "active_controls (click (Child i) st) =
      active_controls (page_after (handleTagFilterClick (Child i) st))"
    by (rule active_controls_cong)
  with assms(2) show ?thesis
    by (simp add: active_controls_after_handle)
qed

lemma click_keeps_at_most_one:
  assumes "length (active_controls st) \<le> 1"
  shows "length (active_controls (click ev st)) \<le> 1"
proof (cases "clickListener st \<and> (\<exists>i. ev = Child i \<and> filter_control st i)")
  case True
  then show ?thesis by (auto simp: click_recognized)
next
  case False
  have "click ev st = st"
  proof (cases "clickListener st")
    case True
    with False have "\<forall>i. ev = Child i \<longrightarrow> \<not> filter_control st i" by blast
    then show ?thesis by (rule click_ignored)
  next
    case False
    then show ?thesis by (simp add: click_def)
  qed
  with assms show ?thesis by simp
qed

lemma clicks_keep_at_most_one:
  "length (active_controls st) \<le> 1 \<Longrightarrow> length (active_controls (fold click evs st)) \<le> 1"
proof (induction evs arbitrary: st)
  case Nil
  then show ?case by simp
next
  case (Cons ev evs)
  from Cons.prems have "length (active_controls (click ev st)) \<le> 1"
    by (rule click_keeps_at_most_one)
  then have "length (active_controls (fold click evs (click ev st))) \<le> 1"
    by (rule Cons.IH)
  then show ?case by simp
qed

lemma portal_eq:
  "portal =
     \<lparr>allGamesData = Games [party, snake],
      gameListContainer = [CardNode (create_card party), CardNode (create_card snake)],
      tagFilterContainer =
        [all_button, caption, create_button ''All'', create_button ''co-op'',
         create_button ''arcade'', create_button ''classic''],
      clickListener = True, console = [], uncaught = []\<rparr>"
proof -
  have present: "\<forall>g \<in> set [party, snake]. tags g \<noteq> None"
    by (simp add: party_def snake_def)
  have tags: "unique_tags [party, snake] = [''All'', ''co-op'', ''arcade'', ''classic'']"
    by (simp add: unique_tags_def catalog_tags_def or_empty_def set_add_def snake_def party_def)
  show ?thesis
    by (simp add: portal_def loadGameCatalog_def renderGameList_value_def
        populateTagFilters_value_def populateTagFilters_present [OF present] tags
        renderGameList_eq initial_page_def)
qed

lemma portal_fields:
  "allGamesData portal = Games [party, snake]"
  "tagFilterContainer portal =
     [all_button, caption, create_button ''All'', create_button ''co-op'',
      create_button ''arcade'', create_button ''classic'']"
  "clickListener portal"
  by (simp_all add: portal_eq)

lemma tagged_examples:
  "tagged ''All'' party" "\<not> tagged ''All'' snake"
  "tagged ''co-op'' party" "\<not> tagged ''co-op'' snake"
  "\<not> tagged ''arc'' party" "\<not> tagged ''arc'' snake" "tagged ''Arcade'' snake"
  by (simp_all add: tagged_def or_empty_def party_def snake_def lower_examples)

lemma portal_controls:
  "filter_control portal 0" "\<not> filter_control portal 1" "filter_control portal 2"
  "filter_control portal 3" "filter_control portal 4"
  "data_tag (tagFilterContainer portal ! 0) = Some ''all''"
  "data_tag (tagFilterContainer portal ! 2) = Some ''all''"
  "data_tag (tagFilterContainer portal ! 3) = Some ''co-op''"
  by (simp_all add: filter_control_def portal_fields classList_contains_def all_button_def
      caption_def create_button_def lower_examples)

text \<open>
  C1, as amended. Let \<^verbatim>\<open>allGamesData\<close> hold a catalog in which every record has a
  \<^verbatim>\<open>tags\<close> sequence, and let the clicked child be a filter control. If its key is the lower-cased form of a tag \<open>t\<close> and
  that form is not "all", the working subset is exactly the records whose lower-cased tags
  contain the lower-cased \<open>t\<close> as an element, in catalog order, and that subset is
  rendered. If its key is "all", the working subset is the catalog itself. The list on
  display after the click does not depend on the list on display before it.
\<close>

theorem filter_activation_selects_tagged:
  assumes catalog: "allGamesData st = Games catalog"
    and present: "\<forall>g \<in> set catalog. tags g \<noteq> None"
    and control: "filter_control st i"
  shows "(data_tag (tagFilterContainer st ! i) = Some (toLowerCase t) \<and> toLowerCase t \<noteq> ''all'' \<longrightarrow>
            filter_logic (Some (toLowerCase t)) catalog = Inr (filter (tagged t) catalog)
            \<and> handleTagFilterClick (Child i) st =
                Inr (renderGameList (filter (tagged t) catalog) (with_only_active i st)))
         \<and> (data_tag (tagFilterContainer st ! i) = Some ''all'' \<longrightarrow>
            filter_logic (Some ''all'') catalog = Inr catalog
            \<and> handleTagFilterClick (Child i) st =
                Inr (renderGameList catalog (with_only_active i st)))
         \<and> gameListContainer (page_after (handleTagFilterClick (Child i) (st\<lparr>gameListContainer := shown\<rparr>))) =
             gameListContainer (page_after (handleTagFilterClick (Child i) st))"
proof -
  have tag: "filter_logic (Some (toLowerCase t)) catalog = Inr (filter (tagged t) catalog)"
    if "toLowerCase t \<noteq> ''all''"
    using present that by (rule filter_logic_tag)
  have "\<exists>subset. filter_logic k catalog = Inr subset" for k
    using filter_games_present [OF present] by (simp add: filter_logic_def)
  then obtain subset where subset:
    "filter_logic (data_tag (tagFilterContainer st ! i)) catalog = Inr subset"
    by blast
  have shown: "allGamesData (st\<lparr>gameListContainer := shown\<rparr>) = Games catalog"
    using catalog by simp
  have stateless: "gameListContainer (page_after (handleTagFilterClick (Child i) (st\<lparr>gameListContainer := shown\<rparr>))) =
             gameListContainer (page_after (handleTagFilterClick (Child i) st))"
    using control subset
    by (simp add: handle_recognized [OF _ catalog] handle_recognized [OF _ shown]
        page_after_def renderGameList_eq)
  show ?thesis
    using control tag stateless by (auto simp: handle_recognized [OF _ catalog] filter_logic_all)
qed

theorem filter_activation_selects_tagged_witness:
  "allGamesData portal = Games [party, snake]
   \<and> tags party \<noteq> None \<and> tags snake \<noteq> None
   \<and> filter_control portal 3 \<and> filter_control portal 0
   \<and> data_tag (tagFilterContainer portal ! 3) = Some (toLowerCase ''co-op'')
   \<and> toLowerCase ''co-op'' \<noteq> ''all''
   \<and> handleTagFilterClick (Child 3) portal = Inr (renderGameList [party] (with_only_active 3 portal))
   \<and> data_tag (tagFilterContainer portal ! 0) = Some ''all''
   \<and> handleTagFilterClick (Child 0) portal = Inr (renderGameList [party, snake] (with_only_active 0 portal))
   \<and> filter (tagged ''arc'') [party, snake] = []"
proof -
  have present: "\<forall>g \<in> set [party, snake]. tags g \<noteq> None"
    by (simp add: party_def snake_def)
  have key3: "data_tag (tagFilterContainer portal ! 3) = Some (toLowerCase ''co-op'')"
    and other: "toLowerCase ''co-op'' \<noteq> ''all''"
    and key0: "data_tag (tagFilterContainer portal ! 0) = Some ''all''"
    by (simp_all add: portal_controls lower_examples)
  from filter_activation_selects_tagged [OF portal_fields(1) present portal_controls(4), of "''co-op''"]
    key3 other
  have "handleTagFilterClick (Child 3) portal =
      Inr (renderGameList (filter (tagged ''co-op'') [party, snake]) (with_only_active 3 portal))"
    by blast
  then have tag: "handleTagFilterClick (Child 3) portal =
      Inr (renderGameList [party] (with_only_active 3 portal))"
    by (simp add: tagged_examples)
  from filter_activation_selects_tagged [OF portal_fields(1) present portal_controls(1)] key0
  have all: "handleTagFilterClick (Child 0) portal =
      Inr (renderGameList [party, snake] (with_only_active 0 portal))"
    by blast
  have "tags party \<noteq> None" "tags snake \<noteq> None"
    by (simp_all add: party_def snake_def)
  with tag all key3 other key0 portal_controls(1,4) portal_fields(1) show ?thesis
    by (simp add: tagged_examples)
qed

text \<open>
  The claim as written covers every tag of the catalog. In the catalog of \<open>party\<close> and
  \<open>snake\<close> the tag "All" occurs; the control the setup creates for it is keyed "all", and
  the filter logic answers that key with both records, while only \<open>party\<close> carries the tag.
\<close>

theorem all_tag_control_shows_whole_catalog:
  "''All'' \<in> set (catalog_tags [party, snake])
   \<and> filter_logic (data_tag (create_button ''All'')) [party, snake] = Inr [party, snake]
   \<and> filter (tagged ''All'') [party, snake] = [party]
   \<and> [party, snake] \<noteq> [party]"
  by (simp add: catalog_tags_def or_empty_def party_def create_button_def lower_examples
      filter_logic_all tagged_def snake_def)


text \<open>
  C9. Let \<^verbatim>\<open>allGamesData\<close> hold a catalog with a record that has no \<^verbatim>\<open>tags\<close>, and let
  the clicked child be a filter control. If its key is anything but "all" (a missing key included), computing the subset
  throws a \<open>TypeError\<close>: the handler has moved the active mark by then, the list on display
  is untouched, and the exception leaves the listener uncaught. If the key is "all", the
  handler returns and renders the whole catalog.
\<close>

theorem filter_activation_faults_on_absent_tags:
  assumes catalog: "allGamesData st = Games catalog"
    and absent: "\<exists>g \<in> set catalog. tags g = None"
    and control: "filter_control st i"
  shows "(data_tag (tagFilterContainer st ! i) \<noteq> Some ''all'' \<longrightarrow>
            filter_logic (data_tag (tagFilterContainer st ! i)) catalog = Inl TypeError
            \<and> handleTagFilterClick (Child i) st = Inl (TypeError, with_only_active i st)
            \<and> (clickListener st \<longrightarrow>
                 click (Child i) st = (with_only_active i st)\<lparr>uncaught := uncaught st @ [TypeError]\<rparr>))
         \<and> (data_tag (tagFilterContainer st ! i) = Some ''all'' \<longrightarrow>
            handleTagFilterClick (Child i) st =
              Inr (renderGameList catalog (with_only_active i st)))"
proof -
  have fault: "filter_logic k catalog = Inl TypeError" if "k \<noteq> Some ''all''" for k
    using absent that by (simp add: filter_logic_def filter_games_absent)
  show ?thesis
    using control fault
    by (auto simp: handle_recognized [OF _ catalog] filter_logic_all click_def with_only_active_def)
qed

lemma broken_portal_fields:
  "allGamesData broken_portal = Games [snake, bare]"
  "tagFilterContainer broken_portal = tagFilterContainer portal"
  "clickListener broken_portal" "uncaught broken_portal = []"
  "filter_control broken_portal i = filter_control portal i"
  by (simp_all add: broken_portal_def portal_eq filter_control_def)

theorem filter_activation_faults_on_absent_tags_witness:
  "allGamesData broken_portal = Games [snake, bare]
   \<and> tags bare = None
   \<and> filter_control broken_portal 3
   \<and> data_tag (tagFilterContainer broken_portal ! 3) \<noteq> Some ''all''
   \<and> handleTagFilterClick (Child 3) broken_portal = Inl (TypeError, with_only_active 3 broken_portal)
   \<and> clickListener broken_portal
   \<and> uncaught (click (Child 3) broken_portal) = [TypeError]
   \<and> filter_control broken_portal 0
   \<and> data_tag (tagFilterContainer broken_portal ! 0) = Some ''all''
   \<and> handleTagFilterClick (Child 0) broken_portal =
       Inr (renderGameList [snake, bare] (with_only_active 0 broken_portal))"
proof -
  note catalog = broken_portal_fields(1)
  have absent: "\<exists>g \<in> set [snake, bare]. tags g = None"
    by (simp add: bare_def)
  have c3: "filter_control broken_portal 3" and c0: "filter_control broken_portal 0"
    by (simp_all add: broken_portal_fields portal_controls)
  have key3: "data_tag (tagFilterContainer broken_portal ! 3) \<noteq> Some ''all''"
    and key0: "data_tag (tagFilterContainer broken_portal ! 0) = Some ''all''"
    and listening: "clickListener broken_portal"
    by (simp_all add: broken_portal_fields portal_controls)
  from filter_activation_faults_on_absent_tags [OF catalog absent c3] key3 listening
  have fault: "handleTagFilterClick (Child 3) broken_portal = Inl (TypeError, with_only_active 3 broken_portal)"
    and report: "click (Child 3) broken_portal =
      (with_only_active 3 broken_portal)\<lparr>uncaught := uncaught broken_portal @ [TypeError]\<rparr>"
    by blast+
  from filter_activation_faults_on_absent_tags [OF catalog absent c0] key0
  have all: "handleTagFilterClick (Child 0) broken_portal =
      Inr (renderGameList [snake, bare] (with_only_active 0 broken_portal))"
    by blast
  have "tags bare = None" by (simp add: bare_def)
  with fault report all key3 key0 listening c3 c0 catalog show ?thesis
    by (simp add: broken_portal_fields)
qed

text \<open>
  C6. A sequence of clicks never leaves more than one filter control marked active if at
  most one was marked before. A click on a filter control first takes the mark from every
  filter control and then marks exactly the clicked one, whether the handler returns or
  throws afterwards. A click on anything else, the container or a child without the class
  \<^verbatim>\<open>tag-filter\<close>, leaves the page as it was.
\<close>

theorem at_most_one_active_control:
  "(length (active_controls st) \<le> 1 \<longrightarrow> length (active_controls (fold click evs st)) \<le> 1)
   \<and> active_controls (st\<lparr>tagFilterContainer := deactivate_all (tagFilterContainer st)\<rparr>) = []
   \<and> (filter_control st i \<longrightarrow>
        active_controls (page_after (handleTagFilterClick (Child i) st)) = [i]
        \<and> (clickListener st \<longrightarrow> active_controls (click (Child i) st) = [i]))
   \<and> ((\<forall>j. ev = Child j \<longrightarrow> \<not> filter_control st j) \<longrightarrow>
        handleTagFilterClick ev st = Inr st \<and> click ev st = st)"
  using clicks_keep_at_most_one [of st evs]
  by (simp add: active_controls_deactivated active_controls_after_handle
      click_recognized handle_ignored click_ignored)

lemma portal_active: "active_controls portal = [0]"
  by (simp add: active_controls_def portal_fields marked_active_def classList_contains_def
      all_button_def caption_def create_button_def upt_rec)

theorem at_most_one_active_control_witness:
  "length (active_controls portal) \<le> 1
   \<and> length (active_controls (fold click [Child 3, Container, Child 1, Child 4] portal)) \<le> 1
   \<and> filter_control portal 3
   \<and> active_controls (page_after (handleTagFilterClick (Child 3) portal)) = [3]
   \<and> clickListener portal
   \<and> active_controls (click (Child 3) portal) = [3]
   \<and> \<not> filter_control portal 1
   \<and> handleTagFilterClick (Child 1) portal = Inr portal
   \<and> handleTagFilterClick Container portal = Inr portal"
proof -
  note inst = at_most_one_active_control [of portal "[Child 3, Container, Child 1, Child 4]" 3]
  have one: "length (active_controls portal) \<le> 1"
    by (simp add: portal_active)
  have caption: "\<forall>j. Child 1 = Child j \<longrightarrow> \<not> filter_control portal j"
    and container: "\<forall>j. Container = Child j \<longrightarrow> \<not> filter_control portal j"
    using portal_controls(2) by simp_all
  from inst [of "Child 1"] one portal_controls(4) portal_fields(3) caption
  have seq: "length (active_controls (fold click [Child 3, Container, Child 1, Child 4] portal)) \<le> 1"
    and handled: "active_controls (page_after (handleTagFilterClick (Child 3) portal)) = [3]"
    and clicked: "active_controls (click (Child 3) portal) = [3]"
    and ignored: "handleTagFilterClick (Child 1) portal = Inr portal"
    by blast+
  from inst [of Container] container
  have "handleTagFilterClick Container portal = Inr portal"
    by blast
  with one seq handled clicked ignored portal_controls(2,4) portal_fields(3) show ?thesis
    by simp
qed

lemma load_ok:
  assumes "\<forall>g \<in> set games. tags g \<noteq> None"
  shows "loadGameCatalog (Response True status (Some (Games games))) st =
     st\<lparr>allGamesData := Games games,
        gameListContainer := (if games = [] then [no_results] else map (\<lambda>g. CardNode (create_card g)) games),
        tagFilterContainer := tagFilterContainer st @ map create_button (unique_tags games),
        clickListener := True\<rparr>"
  by (simp add: loadGameCatalog_def renderGameList_value_def populateTagFilters_value_def
      populateTagFilters_present [OF assms] renderGameList_eq)

text \<open>
  C10, as amended. Let every record of the catalog have a \<^verbatim>\<open>tags\<close> sequence and let a
  tag \<open>t\<close> whose lower-cased form is "all" occur in it. After the load the filter container
  holds a control labelled \<open>t\<close> and keyed "all", the handler is registered, and a click on
  that control shows a card for every record of the catalog: the key "all" yields the whole
  catalog and never filters by the tag. Its result is the subset of the records carrying
  \<open>t\<close> exactly when every record carries \<open>t\<close>. Every other key filters by itself.
\<close>

theorem all_tag_control_never_filters:
  assumes present: "\<forall>g \<in> set games. tags g \<noteq> None"
    and occurs: "t \<in> set (catalog_tags games)"
    and lower: "toLowerCase t = ''all''"
  shows "(let loaded = loadGameCatalog (Response True status (Some (Games games))) st in
          \<exists>i. filter_control loaded i
             \<and> textContent (tagFilterContainer loaded ! i) = t
             \<and> data_tag (tagFilterContainer loaded ! i) = Some ''all''
             \<and> clickListener loaded
             \<and> shown_cards (gameListContainer (click (Child i) loaded)) = map create_card games)
         \<and> filter_logic (Some ''all'') games = Inr games
         \<and> ((filter_logic (Some ''all'') games = Inr (filter (tagged t) games)) \<longleftrightarrow>
              (\<forall>g \<in> set games. tagged t g))
         \<and> (k \<noteq> Some ''all'' \<longrightarrow>
              filter_logic k games =
                Inr (filter (\<lambda>g. array_includes (map toLowerCase (or_empty (tags g))) k) games))"
proof -
  let ?loaded = "loadGameCatalog (Response True status (Some (Games games))) st"
  let ?n = "length (tagFilterContainer st)"
  from occurs have "t \<in> set (unique_tags games)"
    by (simp add: set_unique_tags)
  then obtain j where j: "j < length (unique_tags games)" and t: "unique_tags games ! j = t"
    by (auto simp: in_set_conv_nth)
  have ctrl: "tagFilterContainer ?loaded ! (?n + j) = create_button t"
    using j t by (simp add: load_ok [OF present] nth_append)
  have fc: "filter_control ?loaded (?n + j)"
    using j ctrl by (simp add: filter_control_def classList_contains_def create_button_def)
      (simp add: load_ok [OF present])
  have listening: "clickListener ?loaded"
    by (simp add: load_ok [OF present])
  have catalog: "allGamesData ?loaded = Games games"
    by (simp add: load_ok [OF present])
  have key: "data_tag (tagFilterContainer ?loaded ! (?n + j)) = Some ''all''"
    using ctrl lower by (simp add: create_button_def)
  have "click (Child (?n + j)) ?loaded = renderGameList games (with_only_active (?n + j) ?loaded)"
    using listening fc key
    by (simp add: click_def handle_recognized [OF _ catalog] filter_logic_all)
  then have shown: "shown_cards (gameListContainer (click (Child (?n + j)) ?loaded)) = map create_card games"
    by (simp add: shown_cards_render)
  have label: "textContent (tagFilterContainer ?loaded ! (?n + j)) = t"
    using ctrl by (simp add: create_button_def)
  have whole: "(filter (tagged t) games = games) \<longleftrightarrow> (\<forall>g \<in> set games. tagged t g)"
    by (simp add: filter_id_conv)
  from fc label key listening shown
  have "\<exists>i. filter_control ?loaded i
             \<and> textContent (tagFilterContainer ?loaded ! i) = t
             \<and> data_tag (tagFilterContainer ?loaded ! i) = Some ''all''
             \<and> clickListener ?loaded
             \<and> shown_cards (gameListContainer (click (Child i) ?loaded)) = map create_card games"
    by blast
  moreover have "filter_logic k games =
      Inr (filter (\<lambda>g. array_includes (map toLowerCase (or_empty (tags g))) k) games)"
    if "k \<noteq> Some ''all''"
    using that by (simp add: filter_logic_def filter_games_present [OF present])
  ultimately show ?thesis
    using whole by (auto simp: Let_def filter_logic_all)
qed

lemma includes_examples:
  "array_includes (map toLowerCase (or_empty (tags party))) (Some ''co-op'')"
  "\<not> array_includes (map toLowerCase (or_empty (tags snake))) (Some ''co-op'')"
  by (simp_all add: array_includes_def or_empty_def party_def snake_def lower_examples)

theorem all_tag_control_never_filters_witness:
  "tags party \<noteq> None \<and> tags snake \<noteq> None
   \<and> ''All'' \<in> set (catalog_tags [party, snake])
   \<and> toLowerCase ''All'' = ''all''
   \<and> (\<exists>i. filter_control portal i
          \<and> textContent (tagFilterContainer portal ! i) = ''All''
          \<and> data_tag (tagFilterContainer portal ! i) = Some ''all''
          \<and> clickListener portal
          \<and> shown_cards (gameListContainer (click (Child i) portal)) = [create_card party, create_card snake])
   \<and> filter_logic (Some ''all'') [party, snake] = Inr [party, snake]
   \<and> \<not> tagged ''All'' snake
   \<and> filter_logic (Some ''all'') [party, snake] \<noteq> Inr (filter (tagged ''All'') [party, snake])
   \<and> filter_logic (Some ''co-op'') [party, snake] = Inr [party]"
proof -
  have present: "\<forall>g \<in> set [party, snake]. tags g \<noteq> None"
    by (simp add: party_def snake_def)
  have occurs: "''All'' \<in> set (catalog_tags [party, snake])"
    by (simp add: catalog_tags_def or_empty_def party_def)
  have lower: "toLowerCase ''All'' = ''all''"
    by (simp add: lower_examples)
  have other: "Some ''co-op'' \<noteq> Some ''all''"
    by simp
  note inst = all_tag_control_never_filters [OF present occurs lower,
      of "''OK''" "initial_page [LoadingMessage] [all_button, caption]" "Some ''co-op''"]
  from inst have control: "\<exists>i. filter_control portal i
          \<and> textContent (tagFilterContainer portal ! i) = ''All''
          \<and> data_tag (tagFilterContainer portal ! i) = Some ''all''
          \<and> clickListener portal
          \<and> shown_cards (gameListContainer (click (Child i) portal)) = map create_card [party, snake]"
    unfolding Let_def portal_def [symmetric] by blast
  from inst have whole: "filter_logic (Some ''all'') [party, snake] = Inr [party, snake]"
    by blast
  from inst tagged_examples(2)
  have proper: "filter_logic (Some ''all'') [party, snake] \<noteq> Inr (filter (tagged ''All'') [party, snake])"
    by auto
  from inst other
  have "filter_logic (Some ''co-op'') [party, snake] =
      Inr (filter (\<lambda>g. array_includes (map toLowerCase (or_empty (tags g))) (Some ''co-op'')) [party, snake])"
    by blast
  then have coop: "filter_logic (Some ''co-op'') [party, snake] = Inr [party]"
    by (simp add: includes_examples)
  from present occurs lower control whole proper coop tagged_examples(2) show ?thesis
    by simp
qed

text \<open>
  The claim as written ends: no activation can select exactly the "all"-tagged subset. In
  the catalog of \<open>party\<close> and \<open>snake\<close> the records tagged "All" are \<open>party\<close> alone, and the
  control of the tag "co-op" selects exactly that; in the catalog of \<open>party\<close> alone the
  control keyed "all" does.
\<close>

theorem all_tagged_subset_is_selectable:
  "''All'' \<in> set (catalog_tags [party, snake])
   \<and> filter (tagged ''All'') [party, snake] = [party]
   \<and> filter_logic (data_tag (create_button ''co-op'')) [party, snake] = Inr [party]
   \<and> filter (tagged ''All'') [party] = [party]
   \<and> filter_logic (data_tag (create_button ''All'')) [party] = Inr [party]"
proof -
  have present: "\<forall>g \<in> set [party, snake]. tags g \<noteq> None"
    by (simp add: party_def snake_def)
  have "filter_logic (Some ''co-op'') [party, snake] = Inr [party]"
    using filter_logic_tag [OF present, of "''co-op''"]
    by (simp add: lower_examples tagged_examples)
  moreover have "''All'' \<in> set (catalog_tags [party, snake])"
    by (simp add: catalog_tags_def or_empty_def party_def)
  ultimately show ?thesis
    by (simp add: create_button_def lower_examples tagged_examples filter_logic_all)
qed

section \<open>Properties of the loader\<close>








end
